theory Spec2Isabelle
  imports Complex_Main "HOL-Library.Sublist"
begin

section \<open>Python values, exceptions and observable effects\<close>

text \<open>
  The development embeds \<^verbatim>\<open>imexam/connect.py\<close>: the class \<^verbatim>\<open>Connect\<close>, which ties a
  viewer window (\<^verbatim>\<open>self.window\<close>, a \<^verbatim>\<open>ds9\<close> object) to the examination routines
  (\<^verbatim>\<open>self.exam\<close>, an \<^verbatim>\<open>Imexamine\<close> object). Both collaborators live in other modules of
  the package (\<^verbatim>\<open>ds9_basic.py\<close>, \<^verbatim>\<open>imexamine.py\<close>); what the embedding needs of them is
  modelled from the specification and marked as such.

  Exceptions are values. A method that can raise returns an outcome; every effect that
  can be observed from outside (console output, warnings, log records, calls made to the
  viewer, handler invocations) is appended to a trace, in the order it happens.
\<close>

datatype pyexc =
    KeyError
  | IndexError
  | NameError
  | NotImplementedError
  | AttributeError
  | UnboundLocalError
  | ValueError
  | TypeError
  | IOError
  | InvalidBindingError
  | NoImageLoadedError
  | OtherError string

type_synonym pixelbuffer = "real list list"

type_synonym params = "(string \<times> string) list"

datatype handler =
    Routine string
  | NotCallable

datatype event =
    Print string
  | PrintOptions "(string \<times> string) list"
  | Warn string
  | LogInfo string
  | StartViewer
  | CallFrame
  | CallGetData
  | CallGetFilename
  | CallReadCursor
  | Invoke handler pixelbuffer real real

datatype 'a outcome =
    Returned 'a
  | Raised pyexc 'a
  | Blocked 'a

fun state_of :: "'a outcome \<Rightarrow> 'a" where
  "state_of (Returned s) = s"
| "state_of (Raised e s) = s"
| "state_of (Blocked s) = s"

fun raised :: "'a outcome \<Rightarrow> pyexc option" where
  "raised (Returned s) = None"
| "raised (Raised e s) = Some e"
| "raised (Blocked s) = None"

fun terminated :: "'a outcome \<Rightarrow> bool" where
  "terminated (Returned s) = True"
| "terminated (Raised e s) = False"
| "terminated (Blocked s) = False"

text \<open>Truthiness of an optional string: \<^verbatim>\<open>None\<close> and \<^verbatim>\<open>''\<close> are false.\<close>

fun truthy :: "string option \<Rightarrow> bool" where
  "truthy None = False"
| "truthy (Some s) = (s \<noteq> [])"

text \<open>\<^verbatim>\<open>a in b\<close> on two strings is the substring test.\<close>

definition str_in :: "string \<Rightarrow> string \<Rightarrow> bool" where
  "str_in a b = sublist a b"

text \<open>\<^verbatim>\<open>str.lower()\<close>: the upper-case letters are mapped to lower case, every other
  character is kept.\<close>

definition lower_char :: "char \<Rightarrow> char" where
  "lower_char ch =
     (case map_of (zip ''ABCDEFGHIJKLMNOPQRSTUVWXYZ'' ''abcdefghijklmnopqrstuvwxyz'') ch of
        None \<Rightarrow> ch
      | Some l \<Rightarrow> l)"

definition str_lower :: "string \<Rightarrow> string" where
  "str_lower s = map lower_char s"

section \<open>The key registry of \<^verbatim>\<open>Imexamine\<close>\<close>

text \<open>
  Modelled from the spec: the class \<^verbatim>\<open>Imexamine\<close> (\<^verbatim>\<open>imexamine.py\<close>) is not among the
  sources. Its registry follows sections 3 and 4.1 of the specification: a binding is a
  handler with a description and a parameter record; the registry maps single-character
  keys to bindings and keeps them in registration order.
\<close>

record binding =
  b_handler :: handler
  b_descr :: string
  b_pars :: "params option"

type_synonym registry = "(string \<times> binding) list"

type_synonym user_func = "handler \<times> string \<times> params option"

text \<open>Modelled from the spec: \<^verbatim>\<open>resolve(key)\<close>, an exact, case-sensitive lookup.\<close>

definition resolve :: "registry \<Rightarrow> string \<Rightarrow> binding option" where
  "resolve reg k = map_of reg k"

text \<open>Modelled from the spec: \<^verbatim>\<open>list_keys()\<close>, the keys in registration order.\<close>

definition list_keys :: "registry \<Rightarrow> string list" where
  "list_keys reg = map fst reg"

text \<open>Modelled from the spec: adding or overwriting one entry. A key that is already bound
  keeps its place and gets the new binding; a new key goes to the end.\<close>

fun put_binding :: "string \<Rightarrow> binding \<Rightarrow> registry \<Rightarrow> registry" where
  "put_binding k b [] = [(k, b)]"
| "put_binding k b ((k', b') # reg) =
     (if k' = k then (k, b) # reg else (k', b') # put_binding k b reg)"

text \<open>Modelled from the spec: a binding is malformed when its key is not a single character
  or its handler is not callable.\<close>

fun valid_binding :: "string \<times> user_func \<Rightarrow> bool" where
  "valid_binding (k, h, d, p) = (length k = 1 \<and> h \<noteq> NotCallable)"

fun add_user_func :: "registry \<Rightarrow> string \<times> user_func \<Rightarrow> registry" where
  "add_user_func reg (k, h, d, p) =
     put_binding k \<lparr>b_handler = h, b_descr = d, b_pars = p\<rparr> reg"

record imexamine =
  ex_data :: pixelbuffer
  ex_funcs :: registry
  ex_plot_name :: string

text \<open>Modelled from the spec: \<^verbatim>\<open>register(bindings)\<close> adds or overwrites entries and fails
  with \<^verbatim>\<open>InvalidBindingError\<close> on a malformed binding.\<close>

definition exam_register :: "imexamine \<Rightarrow> (string \<times> user_func) list \<Rightarrow> pyexc + imexamine" where
  "exam_register e user_funcs =
     (if list_all valid_binding user_funcs
      then Inr (e\<lparr>ex_funcs := foldl add_user_func (ex_funcs e) user_funcs\<rparr>)
      else Inl InvalidBindingError)"

text \<open>Modelled from the spec: \<^verbatim>\<open>unlearn_all()\<close> resets every binding's parameter record to
  its documented default and removes nothing. The documented defaults are a table
  \<open>dflt\<close> from handlers to parameter records.\<close>

definition exam_unlearn_all :: "(handler \<Rightarrow> params option) \<Rightarrow> imexamine \<Rightarrow> imexamine" where
  "exam_unlearn_all dflt e =
     e\<lparr>ex_funcs := map (\<lambda>(k, b). (k, b\<lparr>b_pars := dflt (b_handler b)\<rparr>)) (ex_funcs e)\<rparr>"

text \<open>Modelled from the spec: \<^verbatim>\<open>get_options()\<close> is the registry's \<^verbatim>\<open>list_keys()\<close>.\<close>

definition exam_get_options :: "imexamine \<Rightarrow> string list" where
  "exam_get_options e = list_keys (ex_funcs e)"

text \<open>Modelled from the spec: \<^verbatim>\<open>print_options()\<close> prints the available keys with a
  one-line description per key (section 6, console surface).\<close>

definition exam_print_options :: "imexamine \<Rightarrow> event" where
  "exam_print_options e = PrintOptions (map (\<lambda>(k, b). (k, b_descr b)) (ex_funcs e))"

definition exam_set_data :: "imexamine \<Rightarrow> pixelbuffer \<Rightarrow> imexamine" where
  "exam_set_data e d = e\<lparr>ex_data := d\<rparr>"

text \<open>Modelled from the spec: \<^verbatim>\<open>do_option(x, y, key)\<close> invokes the handler bound to the key
  with the current pixel buffer and the cursor position (section 4.3, step 3). The handler
  returns nothing the session inspects and leaves the buffer alone. A key without a
  binding is a failed dictionary lookup.\<close>

definition exam_do_option :: "imexamine \<Rightarrow> real \<Rightarrow> real \<Rightarrow> string \<Rightarrow> pyexc + event" where
  "exam_do_option e x y key =
     (case resolve (ex_funcs e) key of
        None \<Rightarrow> Inl KeyError
      | Some b \<Rightarrow> Inr (Invoke (b_handler b) (ex_data e) x y))"

text \<open>Modelled from the spec: the plot name accessors of \<^verbatim>\<open>Imexamine\<close> are outside the
  specification; \<^verbatim>\<open>connect.py\<close> comments \<^verbatim>\<open>get_plot_name()\<close> as showing the current
  default, and \<^verbatim>\<open>set_plot_name\<close> stores a new one.\<close>

definition exam_get_plot_name :: "imexamine \<Rightarrow> event" where
  "exam_get_plot_name e = Print (ex_plot_name e)"

definition exam_set_plot_name :: "imexamine \<Rightarrow> string \<Rightarrow> imexamine" where
  "exam_set_plot_name e name = e\<lparr>ex_plot_name := name\<rparr>"

section \<open>The viewer window\<close>

text \<open>
  Modelled from the spec: the \<^verbatim>\<open>ds9\<close> class (\<^verbatim>\<open>ds9_basic.py\<close>) is not among the sources.
  Section 4.4 gives the four operations the session uses: the frame identity, the file
  name (empty when no image is loaded), the pixel data, and a blocking cursor read, the
  only one that signals failure. While the session blocks in the cursor read the user
  acts on the viewer: an interaction says what the display shows afterwards (when the
  user switched frames or loaded another image) and what the read delivers, a key press
  at a position or an exception.
\<close>

record viewer =
  v_frame :: string
  v_filename :: string
  v_data :: pixelbuffer

record interaction =
  i_switch :: "viewer option"
  i_cursor :: "pyexc + real \<times> real \<times> string"

section \<open>The class \<^verbatim>\<open>Connect\<close>\<close>

record connect =
  window :: viewer
  exam :: imexamine
  current_frame :: string
  logfile :: string
  trace :: "event list"

definition emit :: "event \<Rightarrow> connect \<Rightarrow> connect" where
  "emit ev c = c\<lparr>trace := trace c @ [ev]\<rparr>"

definition events_since :: "connect \<Rightarrow> connect \<Rightarrow> event list" where
  "events_since c c' = drop (length (trace c)) (trace c')"

definition window_frame :: "connect \<Rightarrow> string \<times> connect" where
  "window_frame c = (v_frame (window c), emit CallFrame c)"

definition window_get_data :: "connect \<Rightarrow> pixelbuffer \<times> connect" where
  "window_get_data c = (v_data (window c), emit CallGetData c)"

definition window_get_filename :: "connect \<Rightarrow> string \<times> connect" where
  "window_get_filename c = (v_filename (window c), emit CallGetFilename c)"

text \<open>The cursor read is entered (\<open>awaiting\<close>), the user acts, the read delivers.\<close>

definition awaiting :: "connect \<Rightarrow> connect" where
  "awaiting c = emit CallReadCursor c"

definition user_acts :: "interaction \<Rightarrow> connect \<Rightarrow> connect" where
  "user_acts i c = c\<lparr>window := (case i_switch i of None \<Rightarrow> window c | Some w \<Rightarrow> w)\<rparr>"

definition window_readcursor ::
    "connect \<Rightarrow> interaction \<Rightarrow> (pyexc + real \<times> real \<times> string) \<times> connect" where
  "window_readcursor c i = (i_cursor i, user_acts i (awaiting c))"

subsection \<open>Construction\<close>

text \<open>
  \<^verbatim>\<open>Connect.__init__\<close>, lines 52 to 65. \<open>w\<close> is the window that the call
  \<^verbatim>\<open>ds9(target=..., path=..., wait_time=..., quit_ds9_on_del=...)\<close> opens and \<open>e\<close> the
  object that \<^verbatim>\<open>Imexamine()\<close> builds. When the viewer is refused nothing has been created:
  the result is the exception and the effects so far. Were the second test false,
  \<^verbatim>\<open>self.window\<close> would not exist when \<^verbatim>\<open>self.frame()\<close> reads it.
\<close>

definition frame :: "connect \<Rightarrow> string \<times> connect" where
  "frame c = window_frame c"

definition Connect_init :: "string \<Rightarrow> viewer \<Rightarrow> imexamine \<Rightarrow> pyexc \<times> event list + connect" where
  "Connect_init viewer_name w e =
     (let possible_viewers = [''ds9''] in
      if str_lower viewer_name \<notin> set possible_viewers
      then Inl (NotImplementedError, [Warn (''**Unsupported viewer'' @ [CHR 0x0A])])
      else if str_in ''ds9'' (str_lower viewer_name)
      then
        (let c0 = \<lparr>window = w, exam = e, current_frame = [], logfile = [],
                   trace = [StartViewer]\<rparr>;
             (f, c1) = frame c0
         in Inr (c1\<lparr>current_frame := f, logfile := ''imexam_log.txt''\<rparr>))
      else Inl (AttributeError, []))"

subsection \<open>The examination session\<close>

definition get_data_filename :: "connect \<Rightarrow> string \<times> connect" where
  "get_data_filename c = window_get_filename c"

definition readcursor ::
    "connect \<Rightarrow> interaction \<Rightarrow> (pyexc + real \<times> real \<times> string) \<times> connect" where
  "readcursor c i = window_readcursor c i"

definition banner :: string where
  "banner = CHR 0x0A # ''Press 'q' to quit'' @ [CHR 0x0A]"

definition log_current_image :: "connect \<Rightarrow> connect" where
  "log_current_image c =
     (let (fname, c1) = get_data_filename c
      in emit (LogInfo (''Current image '' @ fname)) c1)"

text \<open>Lines 102 to 106 of \<^verbatim>\<open>_run_imexam\<close>: the frame check that opens every iteration.\<close>

definition run_imexam_refresh :: "connect \<Rightarrow> connect" where
  "run_imexam_refresh c =
     (let (check_frame, c1) = frame c in
      if current_frame c1 \<noteq> check_frame
      then
        (let (d, c2) = window_get_data c1;
             c3 = c2\<lparr>exam := exam_set_data (exam c2) d\<rparr>;
             c4 = c3\<lparr>current_frame := check_frame\<rparr>
         in log_current_image c4)
      else c1)"

text \<open>
  Lines 112 to 117: the classification of \<^verbatim>\<open>current_key\<close>. The result is the exception
  that escapes, or the new value of \<^verbatim>\<open>current_key\<close>. \<open>xy\<close> holds \<^verbatim>\<open>x, y\<close> as the cursor
  read of this iteration bound them; after a \<^verbatim>\<open>KeyError\<close> the key is \<^verbatim>\<open>'q'\<close> and the
  branch that reads them is not taken.
\<close>

definition run_imexam_dispatch ::
    "string list \<Rightarrow> (real \<times> real) option \<Rightarrow> string \<Rightarrow> connect
      \<Rightarrow> (pyexc + string option) \<times> connect" where
  "run_imexam_dispatch keys xy current_key c =
     (if current_key \<notin> set keys \<and> \<not> str_in ''q'' current_key
      then (Inr (Some current_key), emit (Print ''Invalid key'') c)
      else if str_in ''q'' current_key
      then (Inr None, c)
      else
        (case xy of
           None \<Rightarrow> (Inl UnboundLocalError, c)
         | Some (x, y) \<Rightarrow>
             (case exam_do_option (exam c) x y current_key of
                Inl err \<Rightarrow> (Inl err, c)
              | Inr ev \<Rightarrow> (Inr (Some current_key), emit ev c))))"

text \<open>Lines 102 to 117: one iteration of the loop, for the interaction the cursor read
  meets.\<close>

definition run_imexam_body ::
    "string list \<Rightarrow> connect \<Rightarrow> interaction \<Rightarrow> (pyexc + string option) \<times> connect" where
  "run_imexam_body keys c i =
     (let c1 = run_imexam_refresh c;
          (r, c2) = readcursor c1 i
      in case r of
           Inl err \<Rightarrow>
             if err = KeyError
             then run_imexam_dispatch keys None ''q'' (emit (Print ''Invalid key'') c2)
             else (Inl err, c2)
         | Inr (x, y, current_key) \<Rightarrow> run_imexam_dispatch keys (Some (x, y)) current_key c2)"

text \<open>
  Lines 101 to 117: \<^verbatim>\<open>while current_key:\<close>. The script lists the interactions the cursor
  reads will meet, in order. When it is used up the session is blocked in
  \<^verbatim>\<open>readcursor\<close>, which waits for the user without a timeout.
\<close>

fun run_imexam_loop ::
    "string list \<Rightarrow> string option \<Rightarrow> connect \<Rightarrow> interaction list \<Rightarrow> connect outcome" where
  "run_imexam_loop keys current_key c [] =
     (if truthy current_key then Blocked (awaiting (run_imexam_refresh c)) else Returned c)"
| "run_imexam_loop keys current_key c (i # script) =
     (if truthy current_key
      then
        (case run_imexam_body keys c i of
           (Inl err, c') \<Rightarrow> Raised err c'
         | (Inr current_key', c') \<Rightarrow> run_imexam_loop keys current_key' c' script)
      else Returned c)"

text \<open>\<^verbatim>\<open>Connect._run_imexam\<close>, lines 93 to 117.\<close>

definition run_imexam :: "connect \<Rightarrow> interaction list \<Rightarrow> connect outcome" where
  "run_imexam c script =
     (let c1 = emit (Print banner) c;
          keys = exam_get_options (exam c1);
          c2 = emit (exam_print_options (exam c1)) c1
      in case keys of
           [] \<Rightarrow> Raised IndexError c2
         | k0 # _ \<Rightarrow> run_imexam_loop keys (Some k0) (log_current_image c2) script)"

text \<open>\<^verbatim>\<open>Connect.imexam\<close>, lines 78 to 87. \<^verbatim>\<open>warnings.warn\<close> reports and returns.\<close>

definition imexam :: "connect \<Rightarrow> interaction list \<Rightarrow> connect outcome" where
  "imexam c script =
     (let (validImage, c1) = get_data_filename c in
      if validImage \<noteq> []
      then
        (let (d, c2) = window_get_data c1;
             c3 = c2\<lparr>exam := exam_set_data (exam c2) d\<rparr>;
             (f, c4) = frame c3;
             c5 = c4\<lparr>current_frame := f\<rparr>
         in run_imexam c5 script)
      else Returned (emit (Warn ''No image loaded in viewer'') c1))"

subsection \<open>Parameters, plot name and registration\<close>

text \<open>\<^verbatim>\<open>Connect.unlearn\<close>, lines 317 to 320.\<close>

definition unlearn :: "(handler \<Rightarrow> params option) \<Rightarrow> connect \<Rightarrow> connect" where
  "unlearn dflt c = c\<lparr>exam := exam_unlearn_all dflt (exam c)\<rparr>"

text \<open>\<^verbatim>\<open>Connect.register\<close>, lines 333 to 343.\<close>

definition register :: "connect \<Rightarrow> (string \<times> user_func) list \<Rightarrow> connect outcome" where
  "register c user_funcs =
     (case exam_register (exam c) user_funcs of
        Inl err \<Rightarrow> Raised err c
      | Inr e' \<Rightarrow> Returned (c\<lparr>exam := e'\<rparr>))"

fun register_calls :: "connect \<Rightarrow> (string \<times> user_func) list list \<Rightarrow> connect outcome" where
  "register_calls c [] = Returned c"
| "register_calls c (user_funcs # calls) =
     (case register c user_funcs of
        Returned c' \<Rightarrow> register_calls c' calls
      | Raised err c' \<Rightarrow> Raised err c'
      | Blocked c' \<Rightarrow> Blocked c')"

text \<open>
  The names that \<^verbatim>\<open>connect.py\<close> binds at module level, by its imports (lines 5 to 13) and
  its definitions (lines 15 and 18). A global name is looked up there and then among the
  builtins, and \<^verbatim>\<open>os\<close> is no builtin.
\<close>

definition module_names :: "string list" where
  "module_names =
     [''print_function'', ''division'', ''absolute_import'', ''warnings'', ''logging'',
      ''subprocess'', ''set_logging'', ''find_xpans'', ''xpa'', ''ds9'', ''Imexamine'',
      ''__all__'', ''Connect'']"

text \<open>
  \<^verbatim>\<open>Connect.plotname\<close>, lines 322 to 331. \<open>file_exists\<close> answers \<^verbatim>\<open>os.access(_, os.F_OK)\<close>.
  The replacement field \<^verbatim>\<open>{0s}\<close> of line 329 names no positional argument, so formatting
  the warning is a failed lookup of the keyword \<^verbatim>\<open>0s\<close>.
\<close>

definition plotname :: "(string \<Rightarrow> bool) \<Rightarrow> connect \<Rightarrow> string option \<Rightarrow> connect outcome" where
  "plotname file_exists c filename =
     (if \<not> truthy filename
      then Returned (emit (exam_get_plot_name (exam c)) c)
      else if ''os'' \<notin> set module_names
      then Raised NameError c
      else if file_exists (the filename)
      then Raised KeyError c
      else Returned (c\<lparr>exam := exam_set_plot_name (exam c) (the filename)\<rparr>))"

section \<open>Reading the trace and the registration history\<close>

text \<open>The handler invocations of a session, in order, and the number of
  \<^verbatim>\<open>Invalid key\<close> messages it printed.\<close>

fun is_invoke :: "event \<Rightarrow> bool" where
  "is_invoke (Invoke h d x y) = True"
| "is_invoke ev = False"

definition invocations :: "connect \<Rightarrow> event list" where
  "invocations c = filter is_invoke (trace c)"

definition invalid_key_messages :: "connect \<Rightarrow> nat" where
  "invalid_key_messages c = count_list (trace c) (Print ''Invalid key'')"

text \<open>The keys of a sequence of registrations, each once, at its first registration:
  \<open>remdups\<close> keeps the last occurrence of every element, so on the reversed list it
  keeps the first.\<close>

definition first_regs :: "string list \<Rightarrow> string list" where
  "first_regs ks = rev (remdups (rev ks))"

definition as_binding :: "user_func \<Rightarrow> binding" where
  "as_binding u = (case u of (h, d, p) \<Rightarrow> \<lparr>b_handler = h, b_descr = d, b_pars = p\<rparr>)"

section \<open>Sample sessions\<close>

text \<open>Concrete viewers, registries and interactions on which the theorems below are
  instantiated.\<close>

definition demo_exam :: imexamine where
  "demo_exam =
     \<lparr>ex_data = [],
      ex_funcs =
        [(''a'', \<lparr>b_handler = Routine ''aper_phot'', b_descr = ''aperture photometry'',
                  b_pars = Some [(''radius'', ''5'')]\<rparr>),
         (''h'', \<lparr>b_handler = Routine ''histogram'', b_descr = ''histogram'',
                  b_pars = Some [(''nbins'', ''100'')]\<rparr>)],
      ex_plot_name = ''imexam_plot.pdf''\<rparr>"

definition demo_viewer :: viewer where
  "demo_viewer = \<lparr>v_frame = ''1'', v_filename = ''image.fits'', v_data = [[1, 2], [3, 4]]\<rparr>"

definition blank_viewer :: viewer where
  "blank_viewer = \<lparr>v_frame = ''1'', v_filename = [], v_data = []\<rparr>"

definition demo_connect :: "viewer \<Rightarrow> connect" where
  "demo_connect w =
     \<lparr>window = w, exam = demo_exam, current_frame = v_frame w,
      logfile = ''imexam_log.txt'', trace = []\<rparr>"

definition stale_connect :: connect where
  "stale_connect = (demo_connect demo_viewer)\<lparr>current_frame := ''0''\<rparr>"

definition key_press :: "real \<Rightarrow> real \<Rightarrow> string \<Rightarrow> interaction" where
  "key_press x y k = \<lparr>i_switch = None, i_cursor = Inr (x, y, k)\<rparr>"

definition read_fails :: "pyexc \<Rightarrow> interaction" where
  "read_fails err = \<lparr>i_switch = None, i_cursor = Inl err\<rparr>"

section \<open>Basic facts\<close>

lemma trace_emit [simp]: "trace (emit ev c) = trace c @ [ev]"
  by (simp add: emit_def)

lemma fields_emit [simp]:
  "window (emit ev c) = window c" "exam (emit ev c) = exam c"
  "current_frame (emit ev c) = current_frame c" "logfile (emit ev c) = logfile c"
  by (simp_all add: emit_def)

lemma events_since_append [simp]: "trace c' = trace c @ evs \<Longrightarrow> events_since c c' = evs"
  by (simp add: events_since_def)

lemma lower_char_d: "lower_char ch = CHR ''d'' \<longleftrightarrow> ch = CHR ''d'' \<or> ch = CHR ''D''"
  by (auto simp: lower_char_def split: if_splits)

lemma lower_char_s: "lower_char ch = CHR ''s'' \<longleftrightarrow> ch = CHR ''s'' \<or> ch = CHR ''S''"
  by (auto simp: lower_char_def split: if_splits)

lemma lower_char_9: "lower_char ch = CHR ''9'' \<longleftrightarrow> ch = CHR ''9''"
  by (auto simp: lower_char_def split: if_splits)

lemma str_lower_ds9:
  "str_lower s = ''ds9'' \<longleftrightarrow> s \<in> {''ds9'', ''dS9'', ''Ds9'', ''DS9''}"
  by (auto simp: str_lower_def lower_char_d lower_char_s lower_char_9 map_eq_Cons_conv)

subsection \<open>The frame check and one iteration\<close>

lemma trace_refresh:
  "trace (run_imexam_refresh c) =
     trace c @ (if current_frame c \<noteq> v_frame (window c)
                then [CallFrame, CallGetData, CallGetFilename,
                      LogInfo (''Current image '' @ v_filename (window c))]
                else [CallFrame])"
  by (simp add: run_imexam_refresh_def frame_def window_frame_def window_get_data_def
      log_current_image_def get_data_filename_def window_get_filename_def exam_set_data_def)

lemma fields_refresh:
  "window (run_imexam_refresh c) = window c"
  "current_frame (run_imexam_refresh c) = v_frame (window c)"
  "ex_data (exam (run_imexam_refresh c)) =
     (if current_frame c \<noteq> v_frame (window c) then v_data (window c) else ex_data (exam c))"
  "ex_funcs (exam (run_imexam_refresh c)) = ex_funcs (exam c)"
  "ex_plot_name (exam (run_imexam_refresh c)) = ex_plot_name (exam c)"
  "logfile (run_imexam_refresh c) = logfile c"
  by (auto simp add: run_imexam_refresh_def frame_def window_frame_def window_get_data_def
      log_current_image_def get_data_filename_def window_get_filename_def exam_set_data_def)

lemma refresh_same_frame:
  "current_frame c = v_frame (window c) \<Longrightarrow> run_imexam_refresh c = emit CallFrame c"
  by (simp add: run_imexam_refresh_def frame_def window_frame_def)

lemma trace_dispatch:
  "\<exists>evs. trace (snd (run_imexam_dispatch keys xy k c)) = trace c @ evs \<and> CallGetData \<notin> set evs"
  by (auto simp: run_imexam_dispatch_def exam_do_option_def split: option.splits sum.splits)

lemma fields_dispatch:
  "window (snd (run_imexam_dispatch keys xy k c)) = window c"
  "exam (snd (run_imexam_dispatch keys xy k c)) = exam c"
  "current_frame (snd (run_imexam_dispatch keys xy k c)) = current_frame c"
  by (auto simp: run_imexam_dispatch_def exam_do_option_def split: option.splits sum.splits)

lemma body_frame_effect:
  "\<exists>evs. trace (snd (run_imexam_body keys c i)) = trace (run_imexam_refresh c) @ evs \<and>
         CallGetData \<notin> set evs \<and>
         exam (snd (run_imexam_body keys c i)) = exam (run_imexam_refresh c) \<and>
         current_frame (snd (run_imexam_body keys c i)) = current_frame (run_imexam_refresh c)"
proof (cases "i_cursor i")
  case (Inl err)
  show ?thesis
  proof (cases "err = KeyError")
    case True
    let ?c2 = "emit (Print ''Invalid key'') (user_acts i (awaiting (run_imexam_refresh c)))"
    have b: "run_imexam_body keys c i = run_imexam_dispatch keys None ''q'' ?c2"
      using Inl True by (simp add: run_imexam_body_def readcursor_def window_readcursor_def)
    obtain evs where "trace (snd (run_imexam_dispatch keys None ''q'' ?c2)) = trace ?c2 @ evs"
      "CallGetData \<notin> set evs"
      using trace_dispatch by blast
    then show ?thesis
      by (simp add: b fields_dispatch user_acts_def awaiting_def)
  next
    case False
    then show ?thesis
      using Inl by (simp add: run_imexam_body_def readcursor_def window_readcursor_def
          user_acts_def awaiting_def Let_def)
  qed
next
  case (Inr r)
  obtain x y k where r: "r = (x, y, k)" by (cases r) auto
  let ?c2 = "user_acts i (awaiting (run_imexam_refresh c))"
  have b: "run_imexam_body keys c i = run_imexam_dispatch keys (Some (x, y)) k ?c2"
    using Inr r by (simp add: run_imexam_body_def readcursor_def window_readcursor_def)
  obtain evs where "trace (snd (run_imexam_dispatch keys (Some (x, y)) k ?c2)) = trace ?c2 @ evs"
    "CallGetData \<notin> set evs"
    using trace_dispatch by blast
  then show ?thesis
    by (simp add: b fields_dispatch user_acts_def awaiting_def)
qed

section \<open>Starting a session without an image\<close>

text \<open>
  Claim C1, as the code has it. When the viewer reports an empty file name,
  \<^verbatim>\<open>Connect.imexam\<close> asks for the file name once, issues the warning
  \<^verbatim>\<open>No image loaded in viewer\<close> and returns normally. Nothing else happens: the loop is
  not entered, no cursor read is attempted, no handler is invoked and the session state
  is as before. No exception is raised.
\<close>

theorem imexam_no_image:
  "v_filename (window c) = [] \<Longrightarrow>
     imexam c script =
       Returned (emit (Warn ''No image loaded in viewer'') (emit CallGetFilename c))"
  by (simp add: imexam_def get_data_filename_def window_get_filename_def)

theorem imexam_no_image_witness:
  "v_filename (window (demo_connect blank_viewer)) = [] \<and>
   imexam (demo_connect blank_viewer) [key_press 1 2 ''a''] =
     Returned (emit (Warn ''No image loaded in viewer'')
       (emit CallGetFilename (demo_connect blank_viewer)))"
  using imexam_no_image [of "demo_connect blank_viewer" "[key_press 1 2 ''a'']"]
  by (simp add: demo_connect_def blank_viewer_def)

text \<open>Claim C1 as stated fails: on a viewer without an image the call raises nothing, so
  in particular not \<^verbatim>\<open>NoImageLoadedError\<close>.\<close>

theorem imexam_no_image_counterexample:
  "v_filename (window (demo_connect blank_viewer)) = [] \<and>
   raised (imexam (demo_connect blank_viewer) [key_press 1 2 ''a'']) = None \<and>
   raised (imexam (demo_connect blank_viewer) [key_press 1 2 ''a'']) \<noteq> Some NoImageLoadedError"
  by (simp add: imexam_def get_data_filename_def window_get_filename_def
      demo_connect_def blank_viewer_def)

section \<open>Frame change detection\<close>

text \<open>
  Claim C3. In every iteration of the loop, whatever the cursor read delivers: when the
  viewer's frame identity equals the cached \<^verbatim>\<open>current_frame\<close>, the frame check only asks
  for the frame, the iteration fetches no pixel data, and the cached frame and data are
  as before; when it differs, the frame check and the whole iteration fetch the pixel
  data exactly once, the cached data is the viewer's buffer and \<^verbatim>\<open>current_frame\<close> is
  the viewer's frame identity.
\<close>

theorem frame_change_detection:
  "(v_frame (window c) = current_frame c \<longrightarrow>
      run_imexam_refresh c = emit CallFrame c \<and>
      count_list (events_since c (snd (run_imexam_body keys c i))) CallGetData = 0 \<and>
      current_frame (snd (run_imexam_body keys c i)) = current_frame c \<and>
      ex_data (exam (snd (run_imexam_body keys c i))) = ex_data (exam c)) \<and>
   (v_frame (window c) \<noteq> current_frame c \<longrightarrow>
      count_list (events_since c (run_imexam_refresh c)) CallGetData = 1 \<and>
      count_list (events_since c (snd (run_imexam_body keys c i))) CallGetData = 1 \<and>
      current_frame (snd (run_imexam_body keys c i)) = v_frame (window c) \<and>
      ex_data (exam (snd (run_imexam_body keys c i))) = v_data (window c))"
proof -
  obtain evs where evs:
    "trace (snd (run_imexam_body keys c i)) = trace (run_imexam_refresh c) @ evs"
    "CallGetData \<notin> set evs"
    "exam (snd (run_imexam_body keys c i)) = exam (run_imexam_refresh c)"
    "current_frame (snd (run_imexam_body keys c i)) = current_frame (run_imexam_refresh c)"
    using body_frame_effect by blast
  have n: "count_list evs CallGetData = 0"
    using evs(2) by (simp add: count_list_0_iff)
  show ?thesis
    using n by (auto simp: evs trace_refresh fields_refresh refresh_same_frame)
qed

theorem frame_change_detection_witness:
  "v_frame (window (demo_connect demo_viewer)) = current_frame (demo_connect demo_viewer) \<and>
   count_list (events_since (demo_connect demo_viewer)
     (snd (run_imexam_body [''a'', ''h''] (demo_connect demo_viewer) (key_press 1 2 ''a''))))
     CallGetData = 0 \<and>
   ex_data (exam (snd (run_imexam_body [''a'', ''h''] (demo_connect demo_viewer)
     (key_press 1 2 ''a'')))) = [] \<and>
   v_frame (window stale_connect) \<noteq> current_frame stale_connect \<and>
   count_list (events_since stale_connect
     (snd (run_imexam_body [''a'', ''h''] stale_connect (key_press 1 2 ''a''))))
     CallGetData = 1 \<and>
   current_frame (snd (run_imexam_body [''a'', ''h''] stale_connect (key_press 1 2 ''a''))) = ''1'' \<and>
   ex_data (exam (snd (run_imexam_body [''a'', ''h''] stale_connect (key_press 1 2 ''a'')))) =
     [[1, 2], [3, 4]]"
  using frame_change_detection [of "demo_connect demo_viewer" "[''a'', ''h'']" "key_press 1 2 ''a''"]
    frame_change_detection [of stale_connect "[''a'', ''h'']" "key_press 1 2 ''a''"]
  by (simp add: stale_connect_def demo_connect_def demo_viewer_def demo_exam_def)

section \<open>Choosing the viewer\<close>

text \<open>
  Claim C8. The viewer name is compared in lower case with the list of possible viewers,
  which holds \<^verbatim>\<open>ds9\<close> only. For any other name the constructor issues the warning and
  raises \<^verbatim>\<open>NotImplementedError\<close>; no viewer has been started and no object exists. For
  \<^verbatim>\<open>ds9\<close> in any letter case the construction goes on: the viewer is started, and the
  object holds the window, the examination routines, the viewer's frame and the default
  log file.
\<close>

theorem Connect_init_viewer:
  "(str_lower viewer_name \<noteq> ''ds9'' \<longrightarrow>
      Connect_init viewer_name w e =
        Inl (NotImplementedError, [Warn (''**Unsupported viewer'' @ [CHR 0x0A])])) \<and>
   (str_lower viewer_name = ''ds9'' \<longrightarrow>
      Connect_init viewer_name w e =
        Inr \<lparr>window = w, exam = e, current_frame = v_frame w,
             logfile = ''imexam_log.txt'', trace = [StartViewer, CallFrame]\<rparr>) \<and>
   (str_lower viewer_name = ''ds9'' \<longleftrightarrow>
      viewer_name \<in> {''ds9'', ''dS9'', ''Ds9'', ''DS9''})"
proof (intro conjI)
  show "str_lower viewer_name \<noteq> ''ds9'' \<longrightarrow>
      Connect_init viewer_name w e =
        Inl (NotImplementedError, [Warn (''**Unsupported viewer'' @ [CHR 0x0A])])"
    by (simp add: Connect_init_def)
  show "str_lower viewer_name = ''ds9'' \<longrightarrow>
      Connect_init viewer_name w e =
        Inr \<lparr>window = w, exam = e, current_frame = v_frame w,
             logfile = ''imexam_log.txt'', trace = [StartViewer, CallFrame]\<rparr>"
    by (simp add: Connect_init_def str_in_def frame_def window_frame_def emit_def)
  show "str_lower viewer_name = ''ds9'' \<longleftrightarrow>
      viewer_name \<in> {''ds9'', ''dS9'', ''Ds9'', ''DS9''}"
    by (rule str_lower_ds9)
qed

theorem Connect_init_viewer_witness:
  "str_lower ''ginga'' \<noteq> ''ds9'' \<and>
   Connect_init ''ginga'' demo_viewer demo_exam =
     Inl (NotImplementedError, [Warn (''**Unsupported viewer'' @ [CHR 0x0A])]) \<and>
   str_lower ''DS9'' = ''ds9'' \<and>
   Connect_init ''DS9'' demo_viewer demo_exam =
     Inr \<lparr>window = demo_viewer, exam = demo_exam, current_frame = ''1'',
          logfile = ''imexam_log.txt'', trace = [StartViewer, CallFrame]\<rparr>"
  using Connect_init_viewer [of "''ginga''" demo_viewer demo_exam]
    Connect_init_viewer [of "''DS9''" demo_viewer demo_exam]
  by (simp add: str_lower_def lower_char_def demo_viewer_def)

section \<open>Changing the plot name\<close>

text \<open>
  Claim C10. \<^verbatim>\<open>connect.py\<close> never imports \<^verbatim>\<open>os\<close>. For every non-empty file name,
  \<^verbatim>\<open>Connect.plotname\<close> raises \<^verbatim>\<open>NameError\<close> whatever the file system holds, and the
  object, with its plot name, is as before. Without an argument the method shows the
  current name and raises nothing.
\<close>

theorem plotname_name_error:
  "(filename \<noteq> [] \<longrightarrow> plotname file_exists c (Some filename) = Raised NameError c) \<and>
   plotname file_exists c None = Returned (emit (Print (ex_plot_name (exam c))) c) \<and>
   raised (plotname file_exists c None) = None"
  by (simp add: plotname_def module_names_def exam_get_plot_name_def)

theorem plotname_name_error_witness:
  "''plot.pdf'' \<noteq> [] \<and>
   plotname (\<lambda>f. False) (demo_connect demo_viewer) (Some ''plot.pdf'') =
     Raised NameError (demo_connect demo_viewer) \<and>
   ex_plot_name (exam (state_of
     (plotname (\<lambda>f. False) (demo_connect demo_viewer) (Some ''plot.pdf'')))) =
     ''imexam_plot.pdf''"
  using plotname_name_error [of "''plot.pdf''" "\<lambda>f. False" "demo_connect demo_viewer"]
  by (simp add: demo_connect_def demo_exam_def)

section \<open>The loop, step by step\<close>

lemma str_in_single: "str_in [ch] k \<longleftrightarrow> ch \<in> set k"
  unfolding str_in_def by (induction k) (auto simp: sublist_Cons_right)

lemma str_in_q_single: "length k = 1 \<Longrightarrow> str_in ''q'' k \<longleftrightarrow> k = ''q''"
  by (cases k) (auto simp: str_in_single)

lemma dispatch_quit:
  "str_in ''q'' k \<Longrightarrow> run_imexam_dispatch keys xy k c = (Inr None, c)"
  by (simp add: run_imexam_dispatch_def)

lemma dispatch_unbound:
  "k \<notin> set keys \<Longrightarrow> \<not> str_in ''q'' k \<Longrightarrow>
     run_imexam_dispatch keys xy k c = (Inr (Some k), emit (Print ''Invalid key'') c)"
  by (simp add: run_imexam_dispatch_def)

lemma dispatch_bound:
  "k \<in> set keys \<Longrightarrow> \<not> str_in ''q'' k \<Longrightarrow> resolve (ex_funcs (exam c)) k = Some b \<Longrightarrow>
     run_imexam_dispatch keys (Some (x, y)) k c =
       (Inr (Some k), emit (Invoke (b_handler b) (ex_data (exam c)) x y) c)"
  by (simp add: run_imexam_dispatch_def exam_do_option_def)

lemma body_read_error:
  "i_cursor i = Inl err \<Longrightarrow>
     run_imexam_body keys c i =
       (if err = KeyError
        then (Inr None, emit (Print ''Invalid key'') (user_acts i (awaiting (run_imexam_refresh c))))
        else (Inl err, user_acts i (awaiting (run_imexam_refresh c))))"
  by (simp add: run_imexam_body_def readcursor_def window_readcursor_def Let_def
      dispatch_quit str_in_single)

lemma body_key_press:
  "i_cursor i = Inr (x, y, k) \<Longrightarrow>
     run_imexam_body keys c i =
       run_imexam_dispatch keys (Some (x, y)) k (user_acts i (awaiting (run_imexam_refresh c)))"
  by (simp add: run_imexam_body_def readcursor_def window_readcursor_def Let_def)

lemma loop_not_entered: "\<not> truthy ck \<Longrightarrow> run_imexam_loop keys ck c script = Returned c"
  by (cases script) simp_all

lemma loop_read_error:
  "run_imexam_loop keys ck c pre = Blocked c1 \<Longrightarrow> i_cursor i = Inl err \<Longrightarrow>
     run_imexam_loop keys ck c (pre @ i # post) =
       (if err = KeyError then Returned (emit (Print ''Invalid key'') (user_acts i c1))
        else Raised err (user_acts i c1))"
proof (induction pre arbitrary: ck c)
  case Nil
  then have "truthy ck" and c1: "c1 = awaiting (run_imexam_refresh c)"
    by (auto split: if_splits)
  then show ?case
    using Nil.prems(2) by (simp add: body_read_error loop_not_entered)
next
  case (Cons j pre)
  from Cons.prems(1) have t: "truthy ck"
    by (auto split: if_splits)
  obtain r c' where b: "run_imexam_body keys c j = (r, c')"
    by (cases "run_imexam_body keys c j")
  from Cons.prems(1) t b obtain ck' where r: "r = Inr ck'"
    and l: "run_imexam_loop keys ck' c' pre = Blocked c1"
    by (cases r) auto
  show ?case
    using Cons.IH [OF l Cons.prems(2)] t b r by simp
qed

lemma run_imexam_read_error:
  "run_imexam c pre = Blocked c1 \<Longrightarrow> i_cursor i = Inl err \<Longrightarrow>
     run_imexam c (pre @ i # post) =
       (if err = KeyError then Returned (emit (Print ''Invalid key'') (user_acts i c1))
        else Raised err (user_acts i c1))"
  unfolding run_imexam_def Let_def
  by (cases "exam_get_options (exam (emit (Print banner) c))")
     (simp_all add: loop_read_error del: fields_emit)

lemma imexam_read_error:
  "imexam c pre = Blocked c1 \<Longrightarrow> i_cursor i = Inl err \<Longrightarrow>
     imexam c (pre @ i # post) =
       (if err = KeyError then Returned (emit (Print ''Invalid key'') (user_acts i c1))
        else Raised err (user_acts i c1))"
  unfolding imexam_def Let_def
  by (auto simp: run_imexam_read_error split: prod.splits if_splits)

lemma trace_body: "\<exists>evs. trace (snd (run_imexam_body keys c i)) = trace c @ evs"
  using body_frame_effect [of keys c i] by (auto simp: trace_refresh)

lemma trace_loop:
  "\<exists>evs. trace (state_of (run_imexam_loop keys ck c script)) = trace c @ evs"
proof (induction script arbitrary: ck c)
  case Nil
  then show ?case by (simp add: awaiting_def trace_refresh)
next
  case (Cons i script)
  obtain r c' where b: "run_imexam_body keys c i = (r, c')"
    by (cases "run_imexam_body keys c i")
  obtain evs where e: "trace c' = trace c @ evs"
    using trace_body [of keys c i] b by auto
  show ?case
  proof (cases r)
    case (Inl err)
    then show ?thesis using b e by simp
  next
    case (Inr ck')
    obtain evs' where "trace (state_of (run_imexam_loop keys ck' c' script)) = trace c' @ evs'"
      using Cons.IH by blast
    then show ?thesis using b e Inr by simp
  qed
qed

lemma trace_log_current_image:
  "trace (log_current_image c) =
     trace c @ [CallGetFilename, LogInfo (''Current image '' @ v_filename (window c))]"
  by (simp add: log_current_image_def get_data_filename_def window_get_filename_def)

lemma trace_run_imexam:
  "\<exists>rest. trace (state_of (run_imexam c script)) =
     trace c @ Print banner # exam_print_options (exam c) # rest"
proof (cases "exam_get_options (exam c)")
  case Nil
  then show ?thesis by (simp add: run_imexam_def)
next
  case (Cons k0 ks)
  let ?c2 = "log_current_image (emit (exam_print_options (exam c)) (emit (Print banner) c))"
  obtain evs where "trace (state_of (run_imexam_loop (k0 # ks) (Some k0) ?c2 script)) = trace ?c2 @ evs"
    using trace_loop by blast
  then show ?thesis
    using Cons by (simp add: run_imexam_def trace_log_current_image)
qed

subsection \<open>Evaluating sample sessions\<close>

lemmas session_defs =
  imexam_def run_imexam_def run_imexam_body_def run_imexam_dispatch_def run_imexam_refresh_def
  log_current_image_def get_data_filename_def window_get_filename_def window_get_data_def
  frame_def window_frame_def readcursor_def window_readcursor_def user_acts_def awaiting_def
  exam_get_options_def exam_print_options_def exam_set_data_def exam_do_option_def
  resolve_def list_keys_def emit_def str_in_single

lemmas demo_defs =
  demo_connect_def demo_viewer_def demo_exam_def key_press_def read_fails_def

lemma demo_blocked:
  "imexam (demo_connect demo_viewer) [key_press 1 2 ''a''] =
     Blocked (state_of (imexam (demo_connect demo_viewer) [key_press 1 2 ''a'']))"
  by (simp add: session_defs demo_defs)

section \<open>The console at session start\<close>

text \<open>
  Claim C7. The first thing \<^verbatim>\<open>_run_imexam\<close> does is print the banner, which reads
  \<^verbatim>\<open>Press 'q' to quit\<close> between two line breaks; the next is to print the options, the
  registered keys in order, each with its description. Every cursor read of the session
  comes later. Entered through \<^verbatim>\<open>Connect.imexam\<close> with an image loaded, the session has
  asked the viewer for the file name, the pixel data and the frame before, and for
  nothing else.
\<close>

theorem session_start_banner:
  "(\<exists>rest. trace (state_of (run_imexam c script)) =
      trace c @ Print banner
        # PrintOptions (map (\<lambda>(k, b). (k, b_descr b)) (ex_funcs (exam c))) # rest) \<and>
   (v_filename (window c) \<noteq> [] \<longrightarrow>
      (\<exists>rest. trace (state_of (imexam c script)) =
         trace c @ CallGetFilename # CallGetData # CallFrame # Print banner
           # PrintOptions (map (\<lambda>(k, b). (k, b_descr b)) (ex_funcs (exam c))) # rest)) \<and>
   map fst (map (\<lambda>(k, b). (k, b_descr b)) (ex_funcs (exam c))) = exam_get_options (exam c) \<and>
   str_in ''Press 'q' to quit'' banner"
proof (intro conjI impI)
  show "\<exists>rest. trace (state_of (run_imexam c script)) =
      trace c @ Print banner
        # PrintOptions (map (\<lambda>(k, b). (k, b_descr b)) (ex_funcs (exam c))) # rest"
    using trace_run_imexam [of c script] by (simp add: exam_print_options_def)
next
  assume f: "v_filename (window c) \<noteq> []"
  let ?c5 = "(emit CallFrame ((emit CallGetData (emit CallGetFilename c))
     \<lparr>exam := exam_set_data (exam c) (v_data (window c))\<rparr>))\<lparr>current_frame := v_frame (window c)\<rparr>"
  have i: "imexam c script = run_imexam ?c5 script"
    using f by (simp add: imexam_def get_data_filename_def window_get_filename_def
        window_get_data_def frame_def window_frame_def)
  obtain rest where "trace (state_of (run_imexam ?c5 script)) =
     trace ?c5 @ Print banner # exam_print_options (exam ?c5) # rest"
    using trace_run_imexam by blast
  then show "\<exists>rest. trace (state_of (imexam c script)) =
         trace c @ CallGetFilename # CallGetData # CallFrame # Print banner
           # PrintOptions (map (\<lambda>(k, b). (k, b_descr b)) (ex_funcs (exam c))) # rest"
    by (simp add: i exam_print_options_def exam_set_data_def emit_def)
next
  show "map fst (map (\<lambda>(k, b). (k, b_descr b)) (ex_funcs (exam c))) = exam_get_options (exam c)"
    by (simp add: exam_get_options_def list_keys_def case_prod_unfold comp_def)
next
  show "str_in ''Press 'q' to quit'' banner"
    unfolding str_in_def banner_def by (rule sublist_Cons_right [THEN iffD2, OF disjI2]) simp
qed

theorem session_start_banner_witness:
  "v_filename (window (demo_connect demo_viewer)) \<noteq> [] \<and>
   take 5 (trace (state_of (imexam (demo_connect demo_viewer) [key_press 1 2 ''q'']))) =
     [CallGetFilename, CallGetData, CallFrame, Print banner,
      PrintOptions [(''a'', ''aperture photometry''), (''h'', ''histogram'')]] \<and>
   CallReadCursor \<in> set (drop 5 (trace (state_of
     (imexam (demo_connect demo_viewer) [key_press 1 2 ''q'']))))"
  using session_start_banner [of "demo_connect demo_viewer" "[key_press 1 2 ''q'']"]
  by (simp add: session_defs demo_defs)

section \<open>Exceptions from the cursor read\<close>

text \<open>
  Claim C9. When \<^verbatim>\<open>readcursor()\<close> raises \<^verbatim>\<open>KeyError\<close> in an iteration of the loop, the
  session prints \<^verbatim>\<open>Invalid key\<close> and the loop ends normally; no handler is invoked in
  that iteration and the rest of the script is never read. An exception of any other
  type is not caught: it leaves the loop, \<^verbatim>\<open>_run_imexam\<close> and \<^verbatim>\<open>Connect.imexam\<close>. This
  holds for the first cursor read and for one that follows any number of interactions
  (the session, run on those alone, is blocked in the next read).
\<close>

theorem readcursor_exception:
  assumes "i_cursor i = Inl err"
  shows "(truthy ck \<longrightarrow>
            run_imexam_loop keys ck c (i # post) =
              (if err = KeyError
               then Returned (emit (Print ''Invalid key'')
                      (user_acts i (awaiting (run_imexam_refresh c))))
               else Raised err (user_acts i (awaiting (run_imexam_refresh c)))) \<and>
            invocations (state_of (run_imexam_loop keys ck c (i # post))) = invocations c) \<and>
         (run_imexam c pre = Blocked c1 \<longrightarrow>
            run_imexam c (pre @ i # post) =
              (if err = KeyError then Returned (emit (Print ''Invalid key'') (user_acts i c1))
               else Raised err (user_acts i c1))) \<and>
         (imexam c pre = Blocked c1 \<longrightarrow>
            imexam c (pre @ i # post) =
              (if err = KeyError then Returned (emit (Print ''Invalid key'') (user_acts i c1))
               else Raised err (user_acts i c1)))"
proof (intro conjI impI)
  assume t: "truthy ck"
  then show "run_imexam_loop keys ck c (i # post) =
      (if err = KeyError
       then Returned (emit (Print ''Invalid key'') (user_acts i (awaiting (run_imexam_refresh c))))
       else Raised err (user_acts i (awaiting (run_imexam_refresh c))))"
    using assms by (simp add: body_read_error loop_not_entered)
  then show "invocations (state_of (run_imexam_loop keys ck c (i # post))) = invocations c"
    by (simp add: invocations_def user_acts_def awaiting_def trace_refresh)
next
  assume "run_imexam c pre = Blocked c1"
  then show "run_imexam c (pre @ i # post) =
      (if err = KeyError then Returned (emit (Print ''Invalid key'') (user_acts i c1))
       else Raised err (user_acts i c1))"
    using assms by (rule run_imexam_read_error)
next
  assume "imexam c pre = Blocked c1"
  then show "imexam c (pre @ i # post) =
      (if err = KeyError then Returned (emit (Print ''Invalid key'') (user_acts i c1))
       else Raised err (user_acts i c1))"
    using assms by (rule imexam_read_error)
qed

theorem readcursor_exception_witness:
  "i_cursor (read_fails KeyError) = Inl KeyError \<and>
   i_cursor (read_fails (OtherError ''XpaException'')) = Inl (OtherError ''XpaException'') \<and>
   imexam (demo_connect demo_viewer) [key_press 1 2 ''a''] =
     Blocked (state_of (imexam (demo_connect demo_viewer) [key_press 1 2 ''a''])) \<and>
   imexam (demo_connect demo_viewer)
     [key_press 1 2 ''a'', read_fails KeyError, key_press 3 4 ''h''] =
     Returned (emit (Print ''Invalid key'')
       (state_of (imexam (demo_connect demo_viewer) [key_press 1 2 ''a'']))) \<and>
   imexam (demo_connect demo_viewer)
     [key_press 1 2 ''a'', read_fails (OtherError ''XpaException''), key_press 3 4 ''h''] =
     Raised (OtherError ''XpaException'')
       (state_of (imexam (demo_connect demo_viewer) [key_press 1 2 ''a'']))"
proof -
  have k: "i_cursor (read_fails KeyError) = Inl KeyError"
    and x: "i_cursor (read_fails (OtherError ''XpaException'')) = Inl (OtherError ''XpaException'')"
    by (simp_all add: read_fails_def)
  show ?thesis
    using readcursor_exception [OF k, of "Some ''a''" "[''a'', ''h'']" "demo_connect demo_viewer"
        "[key_press 3 4 ''h'']" "[key_press 1 2 ''a'']"
        "state_of (imexam (demo_connect demo_viewer) [key_press 1 2 ''a''])"]
      readcursor_exception [OF x, of "Some ''a''" "[''a'', ''h'']" "demo_connect demo_viewer"
        "[key_press 3 4 ''h'']" "[key_press 1 2 ''a'']"
        "state_of (imexam (demo_connect demo_viewer) [key_press 1 2 ''a''])"]
      demo_blocked k x
    by (simp add: user_acts_def read_fails_def)
qed

text \<open>
  Claim C4, as the code has it. Whatever interactions came before, a failure of the
  cursor read that is raised as \<^verbatim>\<open>KeyError\<close> is turned into a forced quit:
  \<^verbatim>\<open>Connect.imexam\<close> returns normally, no exception leaves it, and the only effect after
  the failed read is the \<^verbatim>\<open>Invalid key\<close> message. A failure raised as an exception of
  any other type is not caught: the session ends with that exception, which leaves
  \<^verbatim>\<open>Connect.imexam\<close>, and nothing is printed after the failed read.
\<close>

theorem only_key_error_forces_quit:
  assumes "imexam c pre = Blocked c1" and "i_cursor i = Inl err"
  shows "(err = KeyError \<longrightarrow>
            terminated (imexam c (pre @ i # post)) \<and>
            raised (imexam c (pre @ i # post)) = None \<and>
            trace (state_of (imexam c (pre @ i # post))) = trace c1 @ [Print ''Invalid key'']) \<and>
         (err \<noteq> KeyError \<longrightarrow>
            \<not> terminated (imexam c (pre @ i # post)) \<and>
            raised (imexam c (pre @ i # post)) = Some err \<and>
            trace (state_of (imexam c (pre @ i # post))) = trace c1)"
  using imexam_read_error [OF assms, of post] by (simp add: user_acts_def)

theorem only_key_error_forces_quit_witness:
  "imexam (demo_connect demo_viewer) [key_press 1 2 ''a''] =
     Blocked (state_of (imexam (demo_connect demo_viewer) [key_press 1 2 ''a''])) \<and>
   i_cursor (read_fails KeyError) = Inl KeyError \<and>
   terminated (imexam (demo_connect demo_viewer)
     [key_press 1 2 ''a'', read_fails KeyError, key_press 3 4 ''h'']) \<and>
   raised (imexam (demo_connect demo_viewer)
     [key_press 1 2 ''a'', read_fails KeyError, key_press 3 4 ''h'']) = None \<and>
   i_cursor (read_fails IOError) = Inl IOError \<and>
   IOError \<noteq> KeyError \<and>
   \<not> terminated (imexam (demo_connect demo_viewer)
     [key_press 1 2 ''a'', read_fails IOError, key_press 3 4 ''h'']) \<and>
   raised (imexam (demo_connect demo_viewer)
     [key_press 1 2 ''a'', read_fails IOError, key_press 3 4 ''h'']) = Some IOError"
proof -
  have k: "i_cursor (read_fails KeyError) = Inl KeyError"
    and x: "i_cursor (read_fails IOError) = Inl IOError"
    by (simp_all add: read_fails_def)
  show ?thesis
    using only_key_error_forces_quit [OF demo_blocked k, of "[key_press 3 4 ''h'']"]
      only_key_error_forces_quit [OF demo_blocked x, of "[key_press 3 4 ''h'']"]
      demo_blocked k x
    by simp
qed

text \<open>Claim C4 as stated fails: a cursor read that raises \<^verbatim>\<open>ValueError\<close> ends the
  session with that exception, which leaves \<^verbatim>\<open>Connect.imexam\<close>.\<close>

theorem read_failure_counterexample:
  "i_cursor (read_fails ValueError) = Inl ValueError \<and>
   raised (imexam (demo_connect demo_viewer) [key_press 1 2 ''a'', read_fails ValueError]) =
     Some ValueError \<and>
   \<not> terminated (imexam (demo_connect demo_viewer) [key_press 1 2 ''a'', read_fails ValueError])"
  by (simp add: session_defs demo_defs)

section \<open>A session of three key presses\<close>

lemma imexam_enter:
  "v_filename (window c) \<noteq> [] \<Longrightarrow>
     imexam c script =
       run_imexam
         ((emit CallFrame ((emit CallGetData (emit CallGetFilename c))
            \<lparr>exam := exam_set_data (exam c) (v_data (window c))\<rparr>))
          \<lparr>current_frame := v_frame (window c)\<rparr>) script"
  by (simp add: imexam_def get_data_filename_def window_get_filename_def
      window_get_data_def frame_def window_frame_def)

lemma run_imexam_enter:
  "exam_get_options (exam c) = k0 # ks \<Longrightarrow>
     run_imexam c script =
       run_imexam_loop (k0 # ks) (Some k0)
         (log_current_image (emit (exam_print_options (exam c)) (emit (Print banner) c))) script"
  by (simp add: run_imexam_def)

lemma fields_log_current_image [simp]:
  "window (log_current_image c) = window c" "exam (log_current_image c) = exam c"
  "current_frame (log_current_image c) = current_frame c"
  by (simp_all add: log_current_image_def get_data_filename_def window_get_filename_def)

lemma invocations_simps [simp]:
  "invocations (emit ev c) = invocations c @ (if is_invoke ev then [ev] else [])"
  "invocations (run_imexam_refresh c) = invocations c"
  "invocations (log_current_image c) = invocations c"
  "invocations (user_acts i c) = invocations c"
  "invocations (awaiting c) = invocations c"
  "invocations (c\<lparr>exam := e\<rparr>) = invocations c"
  "invocations (c\<lparr>current_frame := f\<rparr>) = invocations c"
  by (simp_all add: invocations_def trace_refresh trace_log_current_image user_acts_def
      awaiting_def)

lemma invalid_key_messages_simps [simp]:
  "invalid_key_messages (emit ev c) =
     invalid_key_messages c + (if ev = Print ''Invalid key'' then 1 else 0)"
  "invalid_key_messages (run_imexam_refresh c) = invalid_key_messages c"
  "invalid_key_messages (log_current_image c) = invalid_key_messages c"
  "invalid_key_messages (user_acts i c) = invalid_key_messages c"
  "invalid_key_messages (awaiting c) = invalid_key_messages c"
  "invalid_key_messages (c\<lparr>exam := e\<rparr>) = invalid_key_messages c"
  "invalid_key_messages (c\<lparr>current_frame := f\<rparr>) = invalid_key_messages c"
  by (simp_all add: invalid_key_messages_def trace_refresh trace_log_current_image user_acts_def
      awaiting_def)

lemma fields_user_acts [simp]:
  "exam (user_acts i c) = exam c" "current_frame (user_acts i c) = current_frame c"
  "trace (user_acts i c) = trace c"
  by (simp_all add: user_acts_def)

lemma fields_awaiting [simp]:
  "exam (awaiting c) = exam c" "current_frame (awaiting c) = current_frame c"
  "window (awaiting c) = window c"
  by (simp_all add: awaiting_def)

lemma exam_refresh_same:
  "current_frame c = v_frame (window c) \<Longrightarrow> exam (run_imexam_refresh c) = exam c"
  by (simp add: refresh_same_frame)

lemma resolve_in_keys: "resolve reg k = Some b \<Longrightarrow> k \<in> set (list_keys reg)"
  by (auto simp: resolve_def list_keys_def dest: map_of_SomeD intro: rev_image_eqI)

lemma resolve_not_in_keys: "resolve reg k = None \<Longrightarrow> k \<notin> set (list_keys reg)"
  by (simp add: resolve_def list_keys_def map_of_eq_None_iff)

text \<open>
  Claim C2. An image is loaded and no registered key is empty (keys are single
  characters). The user presses \<open>a\<close>, a single character other than \<^verbatim>\<open>q\<close> that is
  bound to a handler, then \<open>u\<close>, a single character other than \<^verbatim>\<open>q\<close> without a
  binding, then \<^verbatim>\<open>q\<close>, wherever the cursor is and whatever frames the user switches to
  in between. Then \<^verbatim>\<open>Connect.imexam\<close> returns normally; the session has invoked exactly
  one handler, the one bound to \<open>a\<close>, with the pixel buffer of the session and the
  position of the first key press; and it has printed \<^verbatim>\<open>Invalid key\<close> exactly once.
\<close>

theorem session_a_unbound_q:
  assumes image: "v_filename (window c) \<noteq> []"
    and keys: "[] \<notin> set (exam_get_options (exam c))"
    and a: "resolve (ex_funcs (exam c)) a = Some b" "length a = 1" "a \<noteq> ''q''"
    and u: "resolve (ex_funcs (exam c)) u = None" "length u = 1" "u \<noteq> ''q''"
    and script: "script =
      [\<lparr>i_switch = s1, i_cursor = Inr (x1, y1, a)\<rparr>,
       \<lparr>i_switch = s2, i_cursor = Inr (x2, y2, u)\<rparr>,
       \<lparr>i_switch = s3, i_cursor = Inr (x3, y3, ''q'')\<rparr>]"
  shows "terminated (imexam c script) \<and>
         invocations (state_of (imexam c script)) =
           invocations c @ [Invoke (b_handler b) (v_data (window c)) x1 y1] \<and>
         invalid_key_messages (state_of (imexam c script)) = invalid_key_messages c + 1"
proof -
  let ?keys = "exam_get_options (exam c)"
  let ?i1 = "\<lparr>i_switch = s1, i_cursor = Inr (x1, y1, a)\<rparr>"
  let ?i2 = "\<lparr>i_switch = s2, i_cursor = Inr (x2, y2, u)\<rparr>"
  let ?i3 = "\<lparr>i_switch = s3, i_cursor = Inr (x3, y3, ''q'')\<rparr>"
  have a_in: "a \<in> set ?keys"
    using a(1) by (simp add: exam_get_options_def resolve_in_keys)
  have u_out: "u \<notin> set ?keys"
    using u(1) by (simp add: exam_get_options_def resolve_not_in_keys)
  have a_q: "\<not> str_in ''q'' a" and u_q: "\<not> str_in ''q'' u"
    using a u by (simp_all add: str_in_q_single)
  obtain k0 ks where ks: "?keys = k0 # ks"
    using a_in by (cases ?keys) auto
  have k0: "truthy (Some k0)"
    using keys ks by auto
  have ta: "truthy (Some a)" and tu: "truthy (Some u)"
    using a(2) u(2) by auto
  define c5 where "c5 = (emit CallFrame ((emit CallGetData (emit CallGetFilename c))
            \<lparr>exam := exam_set_data (exam c) (v_data (window c))\<rparr>))
          \<lparr>current_frame := v_frame (window c)\<rparr>"
  define c6 where "c6 = log_current_image (emit (exam_print_options (exam c5)) (emit (Print banner) c5))"
  have c5: "exam c5 = exam_set_data (exam c) (v_data (window c))" "window c5 = window c"
    "current_frame c5 = v_frame (window c)" "invocations c5 = invocations c"
    "invalid_key_messages c5 = invalid_key_messages c"
    by (simp_all add: c5_def)
  have c6: "exam c6 = exam_set_data (exam c) (v_data (window c))"
    "current_frame c6 = v_frame (window c6)" "invocations c6 = invocations c"
    "invalid_key_messages c6 = invalid_key_messages c"
    by (simp_all add: c6_def c5 banner_def exam_print_options_def)
  have keys5: "exam_get_options (exam c5) = k0 # ks"
    using ks by (simp add: c5 exam_get_options_def exam_set_data_def)
  have start: "imexam c script = run_imexam_loop ?keys (Some k0) c6 script"
    using image keys5 ks by (simp add: imexam_enter run_imexam_enter c5_def [symmetric] c6_def)
  \<comment> \<open>first iteration: the key bound to a handler\<close>
  define d1 where "d1 = user_acts ?i1 (awaiting (run_imexam_refresh c6))"
  define c7 where "c7 = emit (Invoke (b_handler b) (v_data (window c)) x1 y1) d1"
  have d1: "exam d1 = exam c6"
    by (simp add: d1_def exam_refresh_same c6)
  have b1: "run_imexam_body ?keys c6 ?i1 = (Inr (Some a), c7)"
    using a_in a_q a(1)
    by (simp add: body_key_press d1_def [symmetric] c7_def
        dispatch_bound [where b = b] d1 c6 exam_set_data_def)
  have c7: "invocations c7 = invocations c @ [Invoke (b_handler b) (v_data (window c)) x1 y1]"
    "invalid_key_messages c7 = invalid_key_messages c"
    by (simp_all add: c7_def d1_def c6)
  \<comment> \<open>second iteration: the key without a binding\<close>
  define c8 where "c8 = emit (Print ''Invalid key'') (user_acts ?i2 (awaiting (run_imexam_refresh c7)))"
  have b2: "run_imexam_body ?keys c7 ?i2 = (Inr (Some u), c8)"
    using u_out u_q by (simp add: body_key_press dispatch_unbound c8_def)
  have c8: "invocations c8 = invocations c7" "invalid_key_messages c8 = invalid_key_messages c7 + 1"
    by (simp_all add: c8_def)
  \<comment> \<open>third iteration: the quit key\<close>
  define c9 where "c9 = user_acts ?i3 (awaiting (run_imexam_refresh c8))"
  have b3: "run_imexam_body ?keys c8 ?i3 = (Inr None, c9)"
    by (simp add: body_key_press dispatch_quit str_in_single c9_def)
  have c9: "invocations c9 = invocations c8" "invalid_key_messages c9 = invalid_key_messages c8"
    by (simp_all add: c9_def)
  have "imexam c script = Returned c9"
    unfolding start unfolding script
    using k0 ta tu by (simp add: b1 b2 b3)
  then show ?thesis
    by (simp add: c9 c8 c7)
qed

theorem session_a_unbound_q_witness:
  "v_filename (window (demo_connect demo_viewer)) \<noteq> [] \<and>
   [] \<notin> set (exam_get_options (exam (demo_connect demo_viewer))) \<and>
   resolve (ex_funcs (exam (demo_connect demo_viewer))) ''a'' =
     Some \<lparr>b_handler = Routine ''aper_phot'', b_descr = ''aperture photometry'',
           b_pars = Some [(''radius'', ''5'')]\<rparr> \<and>
   resolve (ex_funcs (exam (demo_connect demo_viewer))) ''z'' = None \<and>
   terminated (imexam (demo_connect demo_viewer)
     [key_press 10 20 ''a'', key_press 11 21 ''z'', key_press 12 22 ''q'']) \<and>
   invocations (state_of (imexam (demo_connect demo_viewer)
     [key_press 10 20 ''a'', key_press 11 21 ''z'', key_press 12 22 ''q''])) =
     [Invoke (Routine ''aper_phot'') [[1, 2], [3, 4]] 10 20] \<and>
   invalid_key_messages (state_of (imexam (demo_connect demo_viewer)
     [key_press 10 20 ''a'', key_press 11 21 ''z'', key_press 12 22 ''q''])) = 1"
  using session_a_unbound_q [of "demo_connect demo_viewer" "''a''"
      "\<lparr>b_handler = Routine ''aper_phot'', b_descr = ''aperture photometry'',
        b_pars = Some [(''radius'', ''5'')]\<rparr>" "''z''"
      "[key_press 10 20 ''a'', key_press 11 21 ''z'', key_press 12 22 ''q'']"
      None 10 20 None 11 21 None 12 22]
  by (simp add: demo_defs exam_get_options_def list_keys_def resolve_def invocations_def
      invalid_key_messages_def)

section \<open>The registry\<close>

lemma remdups_snoc: "remdups (xs @ [k]) = filter (\<lambda>x. x \<noteq> k) (remdups xs) @ [k]"
  by (induction xs) auto

lemma first_regs_Cons: "first_regs (k # ks) = k # filter (\<lambda>x. x \<noteq> k) (first_regs ks)"
  by (simp add: first_regs_def remdups_snoc rev_filter)

lemma resolve_put_binding:
  "resolve (put_binding k b reg) k' = (if k' = k then Some b else resolve reg k')"
  by (induction reg) (auto simp: resolve_def)

lemma list_keys_put_binding:
  "list_keys (put_binding k b reg) =
     (if k \<in> set (list_keys reg) then list_keys reg else list_keys reg @ [k])"
  by (induction reg) (force simp: list_keys_def)+

lemma add_user_func_binding: "add_user_func reg (k, u) = put_binding k (as_binding u) reg"
  by (cases u) (simp add: as_binding_def)

lemma resolve_foldl:
  "resolve (foldl add_user_func reg bs) k =
     (case map_of (rev bs) k of None \<Rightarrow> resolve reg k | Some u \<Rightarrow> Some (as_binding u))"
proof (induction bs arbitrary: reg)
  case Nil
  then show ?case by simp
next
  case (Cons x bs)
  obtain k' u where x: "x = (k', u)" by (cases x)
  show ?case
    by (simp add: Cons.IH x add_user_func_binding resolve_put_binding map_add_def
        split: option.splits)
qed

lemma list_keys_foldl:
  "list_keys (foldl add_user_func reg bs) =
     list_keys reg @ filter (\<lambda>k. k \<notin> set (list_keys reg)) (first_regs (map fst bs))"
proof (induction bs arbitrary: reg)
  case Nil
  then show ?case by (simp add: first_regs_def)
next
  case (Cons x bs)
  obtain k' u where x: "x = (k', u)" by (cases x)
  show ?case
  proof (cases "k' \<in> set (list_keys reg)")
    case True
    then have "filter (\<lambda>k. k \<notin> set (list_keys reg)) (filter (\<lambda>k. k \<noteq> k') (first_regs (map fst bs))) =
        filter (\<lambda>k. k \<notin> set (list_keys reg)) (first_regs (map fst bs))"
      by (auto intro: filter_cong)
    then show ?thesis
      using True by (simp add: Cons.IH x add_user_func_binding list_keys_put_binding first_regs_Cons)
  next
    case False
    have "filter (\<lambda>k. k \<notin> set (list_keys reg)) (filter (\<lambda>k. k \<noteq> k') (first_regs (map fst bs))) =
        filter (\<lambda>k. k \<noteq> k' \<and> k \<notin> set (list_keys reg)) (first_regs (map fst bs))"
      by (auto intro: filter_cong)
    then show ?thesis
      using False by (simp add: Cons.IH x add_user_func_binding list_keys_put_binding first_regs_Cons)
  qed
qed

lemma register_calls_funcs:
  "register_calls c calls = Returned c' \<Longrightarrow>
     ex_funcs (exam c') = foldl add_user_func (ex_funcs (exam c)) (concat calls) \<and>
     list_all (list_all valid_binding) calls"
proof (induction calls arbitrary: c)
  case Nil
  then show ?case by simp
next
  case (Cons user_funcs calls)
  show ?case
  proof (cases "list_all valid_binding user_funcs")
    case True
    let ?c1 = "c\<lparr>exam := (exam c)\<lparr>ex_funcs := foldl add_user_func (ex_funcs (exam c)) user_funcs\<rparr>\<rparr>"
    have r: "register c user_funcs = Returned ?c1"
      using True by (simp add: register_def exam_register_def)
    with Cons.prems have "register_calls ?c1 calls = Returned c'"
      by simp
    from Cons.IH [OF this] show ?thesis
      using True by simp
  next
    case False
    then have "register c user_funcs = Raised InvalidBindingError c"
      by (simp add: register_def exam_register_def)
    with Cons.prems show ?thesis by simp
  qed
qed

lemma register_accepts:
  "list_all valid_binding user_funcs \<Longrightarrow>
     register c user_funcs =
       Returned (c\<lparr>exam := (exam c)\<lparr>ex_funcs := foldl add_user_func (ex_funcs (exam c)) user_funcs\<rparr>\<rparr>)"
  by (simp add: register_def exam_register_def)

lemma register_calls_accepts:
  "list_all (list_all valid_binding) calls \<Longrightarrow>
     register_calls c calls = Returned (state_of (register_calls c calls))"
  by (induction calls arbitrary: c) (simp_all add: register_accepts)

text \<open>
  Claim C5, on the registry of the specification. Every sequence of \<^verbatim>\<open>register\<close> calls
  whose bindings are well formed (a single-character key, a callable handler) is accepted,
  whether or not its keys are bound already: no call raises. Afterwards a key resolves to
  the binding of its most recent registration in the sequence, and to what it resolved to
  before when the sequence does not register it: registering a bound key overwrites its
  binding. The keys are listed in the order of their first registration: the keys bound
  before the sequence keep their places, overwritten or not, and the new keys follow in
  the order in which they were first registered.

  The docstring of \<^verbatim>\<open>Connect.register\<close> speaks of adding a binding as long as the key is
  unique; the registry modelled here is the specification's, which overwrites.
\<close>

theorem register_last_write_wins:
  assumes "list_all (list_all valid_binding) calls"
  shows "register_calls c calls = Returned (state_of (register_calls c calls)) \<and>
         resolve (ex_funcs (exam (state_of (register_calls c calls)))) k =
           (case map_of (rev (concat calls)) k of
              None \<Rightarrow> resolve (ex_funcs (exam c)) k
            | Some (h, d, p) \<Rightarrow> Some \<lparr>b_handler = h, b_descr = d, b_pars = p\<rparr>) \<and>
         exam_get_options (exam (state_of (register_calls c calls))) =
           exam_get_options (exam c) @
             filter (\<lambda>k. k \<notin> set (exam_get_options (exam c)))
               (first_regs (map fst (concat calls)))"
proof -
  have r: "register_calls c calls = Returned (state_of (register_calls c calls))"
    using assms by (rule register_calls_accepts)
  show ?thesis
    using r register_calls_funcs [OF r]
    by (simp add: resolve_foldl list_keys_foldl exam_get_options_def as_binding_def
        split: option.splits)
qed

theorem register_last_write_wins_witness:
  "list_all (list_all valid_binding)
     [[(''z'', Routine ''first'', ''first try'', None)],
      [(''a'', Routine ''my_phot'', ''my photometry'', None),
       (''z'', Routine ''second'', ''second try'', None)]] \<and>
   resolve (ex_funcs (exam (demo_connect demo_viewer))) ''a'' =
     Some \<lparr>b_handler = Routine ''aper_phot'', b_descr = ''aperture photometry'',
           b_pars = Some [(''radius'', ''5'')]\<rparr> \<and>
   terminated (register_calls (demo_connect demo_viewer)
     [[(''z'', Routine ''first'', ''first try'', None)],
      [(''a'', Routine ''my_phot'', ''my photometry'', None),
       (''z'', Routine ''second'', ''second try'', None)]]) \<and>
   resolve (ex_funcs (exam (state_of (register_calls (demo_connect demo_viewer)
     [[(''z'', Routine ''first'', ''first try'', None)],
      [(''a'', Routine ''my_phot'', ''my photometry'', None),
       (''z'', Routine ''second'', ''second try'', None)]])))) ''z'' =
     Some \<lparr>b_handler = Routine ''second'', b_descr = ''second try'', b_pars = None\<rparr> \<and>
   resolve (ex_funcs (exam (state_of (register_calls (demo_connect demo_viewer)
     [[(''z'', Routine ''first'', ''first try'', None)],
      [(''a'', Routine ''my_phot'', ''my photometry'', None),
       (''z'', Routine ''second'', ''second try'', None)]])))) ''a'' =
     Some \<lparr>b_handler = Routine ''my_phot'', b_descr = ''my photometry'', b_pars = None\<rparr> \<and>
   exam_get_options (exam (state_of (register_calls (demo_connect demo_viewer)
     [[(''z'', Routine ''first'', ''first try'', None)],
      [(''a'', Routine ''my_phot'', ''my photometry'', None),
       (''z'', Routine ''second'', ''second try'', None)]]))) = [''a'', ''h'', ''z'']"
proof -
  let ?calls = "[[(''z'', Routine ''first'', ''first try'', None)],
      [(''a'', Routine ''my_phot'', ''my photometry'', None),
       (''z'', Routine ''second'', ''second try'', None)]]"
  have v: "list_all (list_all valid_binding) ?calls"
    by simp
  show ?thesis
    using register_last_write_wins [OF v, of "demo_connect demo_viewer" "''z''"]
      register_last_write_wins [OF v, of "demo_connect demo_viewer" "''a''"]
    by (simp add: register_def exam_register_def demo_defs exam_get_options_def list_keys_def
        resolve_def)
qed

text \<open>
  Claim C6, on the registry of the specification. \<^verbatim>\<open>Connect.unlearn\<close> leaves the keys
  and their order, and the handler and description of every binding, as they are; the
  parameter record of every binding is the documented default of its handler afterwards.
  The pixel data, the window and the current frame are untouched.
\<close>

theorem unlearn_keeps_bindings:
  "exam_get_options (exam (unlearn dflt c)) = exam_get_options (exam c) \<and>
   resolve (ex_funcs (exam (unlearn dflt c))) k =
     map_option (\<lambda>b. b\<lparr>b_pars := dflt (b_handler b)\<rparr>) (resolve (ex_funcs (exam c)) k) \<and>
   map (\<lambda>(k, b). (k, b_handler b, b_descr b)) (ex_funcs (exam (unlearn dflt c))) =
     map (\<lambda>(k, b). (k, b_handler b, b_descr b)) (ex_funcs (exam c)) \<and>
   map (\<lambda>(k, b). b_pars b) (ex_funcs (exam (unlearn dflt c))) =
     map (\<lambda>(k, b). dflt (b_handler b)) (ex_funcs (exam c)) \<and>
   ex_data (exam (unlearn dflt c)) = ex_data (exam c) \<and>
   window (unlearn dflt c) = window c \<and> current_frame (unlearn dflt c) = current_frame c"
proof -
  have "map_of (map (\<lambda>(k, b). (k, b\<lparr>b_pars := dflt (b_handler b)\<rparr>)) reg) k =
      map_option (\<lambda>b. b\<lparr>b_pars := dflt (b_handler b)\<rparr>) (map_of reg k)" for reg :: registry
    by (induction reg) auto
  then show ?thesis
    by (simp add: unlearn_def exam_unlearn_all_def exam_get_options_def list_keys_def
        resolve_def case_prod_unfold comp_def)
qed

theorem unlearn_keeps_bindings_witness:
  "exam_get_options (exam (unlearn (\<lambda>h. Some [(''radius'', ''5'')])
     ((demo_connect demo_viewer)\<lparr>exam := demo_exam\<lparr>ex_funcs :=
        [(''a'', \<lparr>b_handler = Routine ''aper_phot'', b_descr = ''aperture photometry'',
                  b_pars = Some [(''radius'', ''12'')]\<rparr>)]\<rparr>\<rparr>))) = [''a''] \<and>
   resolve (ex_funcs (exam (unlearn (\<lambda>h. Some [(''radius'', ''5'')])
     ((demo_connect demo_viewer)\<lparr>exam := demo_exam\<lparr>ex_funcs :=
        [(''a'', \<lparr>b_handler = Routine ''aper_phot'', b_descr = ''aperture photometry'',
                  b_pars = Some [(''radius'', ''12'')]\<rparr>)]\<rparr>\<rparr>)))) ''a'' =
     Some \<lparr>b_handler = Routine ''aper_phot'', b_descr = ''aperture photometry'',
           b_pars = Some [(''radius'', ''5'')]\<rparr>"
  using unlearn_keeps_bindings [of "\<lambda>h. Some [(''radius'', ''5'')]"
      "(demo_connect demo_viewer)\<lparr>exam := demo_exam\<lparr>ex_funcs :=
        [(''a'', \<lparr>b_handler = Routine ''aper_phot'', b_descr = ''aperture photometry'',
                  b_pars = Some [(''radius'', ''12'')]\<rparr>)]\<rparr>\<rparr>" "''a''"]
  by (simp add: exam_get_options_def list_keys_def resolve_def demo_defs)

end
